theory Spec2Isabelle
  imports Main "HOL-Library.AList"
begin

section \<open>Resources handled by the package revision page\<close>

text \<open>
  The TypeScript resource types live in \<^verbatim>\<open>types/\<close>; the records below
  carry the fields that \<^verbatim>\<open>PackageRevisionPage.tsx\<close> and the role binding
  metadata function read or write.  Two payloads are left polymorphic: the fields of a package
  revision's \<^verbatim>\<open>spec\<close> other than \<^verbatim>\<open>lifecycle\<close> (the
  extension slot of the record), and the raw status of a RootSync.
\<close>

record ObjectMeta =
  name :: string

record KubernetesResource =
  metadata :: ObjectMeta

record 's KubernetesSpecResource = KubernetesResource +
  spec :: 's

text \<open>Modelled from the spec: the lifecycle enum of a package revision (Draft, Proposed,
  Published); its declaration is in \<^verbatim>\<open>types/PackageRevision\<close>.\<close>

datatype PackageRevisionLifecycle = DRAFT | PROPOSED | PUBLISHED

record PackageRevisionSpec =
  lifecycle :: PackageRevisionLifecycle

type_synonym 'z PackageRevision = "'z PackageRevisionSpec_scheme KubernetesSpecResource"

text \<open>\<^verbatim>\<open>repository.spec.git?.secretRef?.name\<close>: the git details and
  the secret reference are both optional; the reference is an object with a
  \<^verbatim>\<open>name\<close>.\<close>

record RepositoryGit =
  secretRef :: "ObjectMeta option"

record RepositorySpec =
  git :: "RepositoryGit option"

type_synonym Repository = "RepositorySpec KubernetesSpecResource"

record RepositorySummary =
  repository :: Repository
  downstreamRepositories :: "Repository list"

type_synonym PackageRevisionResourcesMap = "(string \<times> string) list"

record PackageRevisionResourcesSpec =
  resources :: PackageRevisionResourcesMap

type_synonym PackageRevisionResources = "PackageRevisionResourcesSpec KubernetesSpecResource"

record Secret = KubernetesResource +
  data :: "(string \<times> string) list"

record 't RootSync = KubernetesResource +
  status :: "'t option"

text \<open>Modelled from the spec: the five classifications of
  \<^verbatim>\<open>SyncStatusState\<close> (declared in \<^verbatim>\<open>utils/configSync\<close>).
  A TypeScript enum is a string at run time, so a value outside the enum can reach the
  \<^verbatim>\<open>default\<close> branch of a switch; \<open>OTHER\<close> stands for such a value.\<close>

datatype SyncStatusState = ERROR | STALLED | RECONCILING | PENDING | SYNCED | OTHER string

record SyncStatus =
  state :: SyncStatusState
  errors :: "string list option"

text \<open>A JavaScript \<^verbatim>\<open>Error\<close> with its message; a rejected promise or a
  thrown exception is the \<open>Inl\<close> of a sum.\<close>

datatype js_error = Error (message: string)

text \<open>\<^verbatim>\<open>useState<RootSync | null>()\<close>: not yet resolved (undefined), resolved
  and absent (null), or a resource.\<close>

datatype 'a nullable = Undefined | Null | Value 'a

fun truthy :: "'a nullable \<Rightarrow> bool" where
  "truthy (Value _) = True"
| "truthy _ = False"

section \<open>Role binding metadata (\<^verbatim>\<open>getRoleBindingStructuredMetadata\<close>)\<close>

datatype RoleBindingRoleRef = RoleBindingRoleRef (roleRef_kind: string) (roleRef_name: string)

datatype RoleBindingSubject = RoleBindingSubject (subject_kind: string) (subject_name: string)

record RoleBinding = KubernetesResource +
  roleRef :: RoleBindingRoleRef
  subjects :: "RoleBindingSubject list"









section \<open>Sync status display\<close>

text \<open>The \<^verbatim>\<open>Color\<close> of a Material UI alert is one of the string literals
  success, info, warning and error.\<close>

type_synonym Color = string

fun getAlertSeverity :: "SyncStatus \<Rightarrow> Color" where
  "getAlertSeverity thisSyncStatus =
     (case state thisSyncStatus of
        ERROR \<Rightarrow> ''error''
      | STALLED \<Rightarrow> ''error''
      | RECONCILING \<Rightarrow> ''info''
      | PENDING \<Rightarrow> ''info''
      | SYNCED \<Rightarrow> ''success''
      | OTHER _ \<Rightarrow> ''error'')"

section \<open>Sync secret name\<close>

text \<open>\<^verbatim>\<open>String.prototype.replaceAll\<close> with a one-character pattern: every
  occurrence of the character is replaced by the replacement string.\<close>

definition replaceAll :: "char \<Rightarrow> string \<Rightarrow> string \<Rightarrow> string" where
  "replaceAll pattern replacement s =
     concat (map (\<lambda>c. if c = pattern then replacement else [c]) s)"

text \<open>Lines 266 and 267 of \<^verbatim>\<open>createSync\<close>: the name of the secret created
  for the sync, from the name of the package revision.\<close>

definition newSecretName :: "'z PackageRevision \<Rightarrow> string" where
  "newSecretName packageRevision =
     (let baseName = replaceAll (CHR '':'') ''-'' (name (metadata packageRevision))
      in baseName @ ''-sync'')"

section \<open>Backend API, helper functions and page state\<close>

text \<open>The client behind \<^verbatim>\<open>configAsDataApiRef\<close>.  Each method is a
  request whose promise is fulfilled (\<open>Inr\<close>) or rejected (\<open>Inl\<close>).  Within one
  event the page calls a method at most once, so a function of the request covers every
  behaviour of the backend in that event; from one event to the next the backend may change.\<close>

record ('z, 't) Api =
  getPackageRevision :: "string \<Rightarrow> js_error + 'z PackageRevision"
  getPackageRevisionResources :: "string \<Rightarrow> js_error + PackageRevisionResources"
  replacePackageRevision :: "'z PackageRevision \<Rightarrow> js_error + 'z PackageRevision"
  approvePackageRevision :: "'z PackageRevision \<Rightarrow> js_error + 'z PackageRevision"
  replacePackageRevisionResources :: "PackageRevisionResources \<Rightarrow> js_error + unit"
  listRootSyncs :: "js_error + 't RootSync list"
  getRootSync :: "string \<Rightarrow> js_error + 't RootSync"
  createRootSync :: "'t RootSync \<Rightarrow> js_error + 't RootSync"
  getSecret :: "string \<Rightarrow> js_error + Secret"
  createSecret :: "Secret \<Rightarrow> js_error + Secret"

text \<open>The requests the page sends, as they are recorded in the state, in the order they are
  issued.\<close>

datatype ('z, 't) ApiCall =
    GetRepositorySummary string
  | GetPackageRevision string
  | GetPackageRevisionResources string
  | ReplacePackageRevision "'z PackageRevision"
  | ApprovePackageRevision "'z PackageRevision"
  | ReplacePackageRevisionResources PackageRevisionResources
  | ListRootSyncs
  | GetRootSync string
  | CreateRootSync "'t RootSync"
  | GetSecret string
  | CreateSecret Secret

text \<open>The functions imported from \<^verbatim>\<open>utils/\<close>, whose bodies are in other
  files: they are parameters of the model.  \<open>getRootSync_util\<close> is
  \<^verbatim>\<open>getRootSync\<close> of \<^verbatim>\<open>utils/configSync\<close> (the API has a
  method of the same name).  The two functions called inside the
  \<^verbatim>\<open>try\<close> block of \<^verbatim>\<open>createSync\<close> may throw.\<close>

record ('z, 't) Utils =
  getRepositorySummary :: "('z, 't) Api \<Rightarrow> string \<Rightarrow> js_error + RepositorySummary"
  findRootSyncForPackage ::
    "'t RootSync list \<Rightarrow> 'z PackageRevision \<Rightarrow> Repository \<Rightarrow> 't RootSync option"
  getRootSync_util :: "Repository \<Rightarrow> 'z PackageRevision \<Rightarrow> string \<Rightarrow> js_error + 't RootSync"
  getRootSyncSecret :: "string \<Rightarrow> Secret \<Rightarrow> js_error + Secret"
  getSyncStatus :: "'t \<Rightarrow> SyncStatus"
  canCloneOrDeploy :: "'z PackageRevision \<Rightarrow> bool"
  getPackageRevisionTitle :: "'z PackageRevision \<Rightarrow> string"
  getPackageRevisionResourcesResource ::
    "string \<Rightarrow> PackageRevisionResourcesMap \<Rightarrow> PackageRevisionResources"
  getPackageDescriptor :: "Repository \<Rightarrow> string"
  isDeploymentRepository :: "Repository \<Rightarrow> bool"

datatype PackageRevisionPageMode = EDIT | VIEW

record PackageRevisionPageProps =
  mode :: PackageRevisionPageMode
  repositoryName :: string
  packageName :: string

datatype Route =
    packageRef string string
  | editPackageRef string string
  | deployPackageRef string string

text \<open>
  The state of one page instance.  Package revisions are JavaScript objects that
  \<^verbatim>\<open>cloneDeep\<close> copies and an assignment mutates, so they live in a store:
  \<open>objects\<close> maps a reference to the object's content, \<open>nextRef\<close> is the first
  reference not yet allocated, and the \<^verbatim>\<open>packageRevision\<close> state variable
  holds a reference.  \<open>calls\<close> records the backend requests issued so far;
  \<open>loading\<close> and \<open>error\<close> are the state that \<^verbatim>\<open>useAsync\<close>
  keeps for \<^verbatim>\<open>loadPackageRevision\<close>; \<open>refreshTimeout\<close> is the
  pending timer of the refresh effect, with its delay in milliseconds;
  \<open>effectsPending\<close> says that \<^verbatim>\<open>rootSync\<close> has changed since the two
  effects that depend on it last ran; \<open>location\<close> is the last target of
  \<^verbatim>\<open>navigate\<close>.
\<close>

record ('z, 't) PageState =
  objects :: "nat \<Rightarrow> 'z PackageRevision"
  nextRef :: nat
  calls :: "('z, 't) ApiCall list"
  repositorySummary :: "RepositorySummary option"
  packageRevision :: "nat option"
  resourcesMap :: PackageRevisionResourcesMap
  rootSync :: "'t RootSync nullable"
  syncStatus :: "SyncStatus option"
  userInitiatedApiRequest :: bool
  loading :: bool
  error :: "js_error option"
  refreshTimeout :: "nat option"
  effectsPending :: bool
  location :: "Route option"

text \<open>The state at mount: the initial values of the \<^verbatim>\<open>useState\<close> calls,
  \<^verbatim>\<open>useAsync\<close> loading, and the effects still to run.\<close>

definition initialState :: "(nat \<Rightarrow> 'z PackageRevision) \<Rightarrow> ('z, 't) PageState" where
  "initialState store =
     \<lparr>objects = store, nextRef = 0, calls = [], repositorySummary = None,
      packageRevision = None, resourcesMap = [], rootSync = Undefined, syncStatus = None,
      userInitiatedApiRequest = False, loading = True, error = None, refreshTimeout = None,
      effectsPending = True, location = None\<rparr>"

definition request :: "('z, 't) ApiCall \<Rightarrow> ('z, 't) PageState \<Rightarrow> ('z, 't) PageState" where
  "request c st = st\<lparr>calls := calls st @ [c]\<rparr>"

text \<open>A new object: the result of \<^verbatim>\<open>cloneDeep\<close>, or a response of the
  backend.\<close>

definition newObject ::
  "'z PackageRevision \<Rightarrow> ('z, 't) PageState \<Rightarrow> nat \<times> ('z, 't) PageState" where
  "newObject v st =
     (nextRef st, st\<lparr>objects := (objects st)(nextRef st := v), nextRef := Suc (nextRef st)\<rparr>)"

definition cloneDeep :: "nat \<Rightarrow> ('z, 't) PageState \<Rightarrow> nat \<times> ('z, 't) PageState" where
  "cloneDeep r st = newObject (objects st r) st"

text \<open>The assignment \<^verbatim>\<open>target.spec.lifecycle = l\<close> on the object behind a
  reference.\<close>

definition assignLifecycle ::
  "nat \<Rightarrow> PackageRevisionLifecycle \<Rightarrow> ('z, 't) PageState \<Rightarrow> ('z, 't) PageState" where
  "assignLifecycle r l st =
     st\<lparr>objects := (objects st)(r := (objects st r)\<lparr>spec := (spec (objects st r))\<lparr>lifecycle := l\<rparr>\<rparr>)\<rparr>"

text \<open>\<^verbatim>\<open>try { body } finally { cleanup }\<close>: the cleanup runs on the state the
  body left, whether the body returned or threw, and the outcome of the body stands.\<close>

definition tryFinally ::
  "('s \<Rightarrow> (js_error + 'a) \<times> 's) \<Rightarrow> ('s \<Rightarrow> 's) \<Rightarrow> 's \<Rightarrow> (js_error + 'a) \<times> 's" where
  "tryFinally body cleanup st = (case body st of (r, st') \<Rightarrow> (r, cleanup st'))"

definition setUserInitiatedApiRequest :: "bool \<Rightarrow> ('z, 't) PageState \<Rightarrow> ('z, 't) PageState" where
  "setUserInitiatedApiRequest b st = st\<lparr>userInitiatedApiRequest := b\<rparr>"

definition setPackageRevision :: "nat \<Rightarrow> ('z, 't) PageState \<Rightarrow> ('z, 't) PageState" where
  "setPackageRevision r st = st\<lparr>packageRevision := Some r\<rparr>"

text \<open>\<^verbatim>\<open>setRootSync\<close>.  React compares the new value with the old one by
  identity: a resource is always a fresh object of a response, so it always counts as a
  change; null and undefined are compared as they are.\<close>

definition setRootSync :: "'t RootSync nullable \<Rightarrow> ('z, 't) PageState \<Rightarrow> ('z, 't) PageState" where
  "setRootSync v st =
     st\<lparr>rootSync := v,
        effectsPending := (effectsPending st \<or> (case v of Value _ \<Rightarrow> True | _ \<Rightarrow> rootSync st \<noteq> v))\<rparr>"

section \<open>Lifecycle transitions\<close>

text \<open>The handlers are created by a render in which the package revision and the repository
  summary are defined; \<open>thisRevision\<close> is the reference which that render read from the
  \<^verbatim>\<open>packageRevision\<close> state variable, and \<open>summary\<close> the repository summary
  it read.\<close>

definition moveToDraft ::
  "('z, 't) Api \<Rightarrow> nat \<Rightarrow> ('z, 't) PageState \<Rightarrow> (js_error + unit) \<times> ('z, 't) PageState" where
  "moveToDraft api thisRevision st =
     tryFinally
       (\<lambda>s.
          let (targetPackageRevision, s) = cloneDeep thisRevision s;
              s = assignLifecycle targetPackageRevision DRAFT s;
              s = request (ReplacePackageRevision (objects s targetPackageRevision)) s
          in case replacePackageRevision api (objects s targetPackageRevision) of
               Inl e \<Rightarrow> (Inl e, s)
             | Inr response \<Rightarrow>
                 let (updatedPackageRevision, s) = newObject response s
                 in (Inr (), setPackageRevision updatedPackageRevision s))
       (setUserInitiatedApiRequest False)
       (setUserInitiatedApiRequest True st)"

definition moveToProposed ::
  "('z, 't) Api \<Rightarrow> nat \<Rightarrow> ('z, 't) PageState \<Rightarrow> (js_error + unit) \<times> ('z, 't) PageState" where
  "moveToProposed api thisRevision st =
     tryFinally
       (\<lambda>s.
          let (targetPackageRevision, s) = cloneDeep thisRevision s;
              s = assignLifecycle targetPackageRevision PROPOSED s;
              s = request (ReplacePackageRevision (objects s targetPackageRevision)) s
          in case replacePackageRevision api (objects s targetPackageRevision) of
               Inl e \<Rightarrow> (Inl e, s)
             | Inr response \<Rightarrow>
                 let (updatedPackageRevision, s) = newObject response s
                 in (Inr (), setPackageRevision updatedPackageRevision s))
       (setUserInitiatedApiRequest False)
       (setUserInitiatedApiRequest True st)"

definition approvePackage ::
  "('z, 't) Api \<Rightarrow> nat \<Rightarrow> ('z, 't) PageState \<Rightarrow> (js_error + unit) \<times> ('z, 't) PageState" where
  "approvePackage api thisRevision st =
     tryFinally
       (\<lambda>s.
          let (patchResource, s) = cloneDeep thisRevision s;
              s = assignLifecycle patchResource PUBLISHED s;
              s = request (ApprovePackageRevision (objects s patchResource)) s
          in case approvePackageRevision api (objects s patchResource) of
               Inl e \<Rightarrow> (Inl e, s)
             | Inr response \<Rightarrow>
                 let (approvedPackageRevision, s) = newObject response s
                 in (Inr (), setPackageRevision approvedPackageRevision s))
       (setUserInitiatedApiRequest False)
       (setUserInitiatedApiRequest True st)"

section \<open>Sync creation\<close>

text \<open>\<^verbatim>\<open>repositorySummary.repository.spec.git?.secretRef?.name\<close>: undefined
  (\<open>None\<close>) as soon as a link of the chain is missing.\<close>

definition repoSecretName :: "RepositorySummary \<Rightarrow> string option" where
  "repoSecretName summary =
     (case git (spec (repository summary)) of
        None \<Rightarrow> None
      | Some g \<Rightarrow> (case secretRef g of None \<Rightarrow> None | Some r \<Rightarrow> Some (name r)))"

text \<open>In \<^verbatim>\<open>createSync\<close>, \<^verbatim>\<open>if (repoSecretName)\<close> skips
  its body for undefined and for the empty string, the two falsy values of
  \<^verbatim>\<open>string | undefined\<close>.  The two \<open>request\<close> steps before the helper
  functions record the awaited calls of the API; \<^verbatim>\<open>getRootSyncSecret\<close> and
  \<^verbatim>\<open>getRootSync\<close> do not receive the API.\<close>

definition createSync ::
  "('z, 't) Api \<Rightarrow> ('z, 't) Utils \<Rightarrow> RepositorySummary \<Rightarrow> nat \<Rightarrow> ('z, 't) PageState
     \<Rightarrow> (js_error + unit) \<times> ('z, 't) PageState" where
  "createSync api utils summary thisRevision st =
     tryFinally
       (\<lambda>s.
          (case repoSecretName summary of
             None \<Rightarrow> (Inr (), s)
           | Some secretName \<Rightarrow>
              (if secretName = [] then (Inr (), s)
               else
                (let s = request (GetSecret secretName) s
                 in (case getSecret api secretName of
                   Inl e \<Rightarrow> (Inl e, s)
                 | Inr repoSecret \<Rightarrow>
                    (case getRootSyncSecret utils (newSecretName (objects s thisRevision)) repoSecret of
                       Inl e \<Rightarrow> (Inl e, s)
                     | Inr syncSecret \<Rightarrow>
                        (let s = request (CreateSecret syncSecret) s
                         in (case createSecret api syncSecret of
                               Inl e \<Rightarrow> (Inl e, s)
                             | Inr createdSyncSecret \<Rightarrow>
                                (case getRootSync_util utils (repository summary)
                                        (objects s thisRevision) (name (metadata createdSyncSecret)) of
                                   Inl e \<Rightarrow> (Inl e, s)
                                 | Inr rootSyncResource \<Rightarrow>
                                    (let s = request (CreateRootSync rootSyncResource) s
                                     in (case createRootSync api rootSyncResource of
                                           Inl e \<Rightarrow> (Inl e, s)
                                         | Inr newRootSync \<Rightarrow>
                                             (Inr (), setRootSync (Value newRootSync) s))))))))))))
       (setUserInitiatedApiRequest False)
       (setUserInitiatedApiRequest True st)"


section \<open>Effects on the tracked RootSync\<close>

text \<open>The effect of lines 165 to 184.  Its cleanup clears the timer of the previous run; then,
  for a resource, one timer is set: five seconds when the resource has a status, one second
  when it has none.\<close>

definition refreshSeconds :: "'t RootSync \<Rightarrow> nat" where
  "refreshSeconds thisRootSync = (if status thisRootSync \<noteq> None then 5 else 1)"

definition refreshEffect :: "('z, 't) PageState \<Rightarrow> ('z, 't) PageState" where
  "refreshEffect st =
     st\<lparr>refreshTimeout :=
          (case rootSync st of
             Value thisRootSync \<Rightarrow> Some (refreshSeconds thisRootSync * 1000)
           | _ \<Rightarrow> None)\<rparr>"

text \<open>The effect of lines 186 to 193.\<close>

definition syncStatusEffect :: "('z, 't) Utils \<Rightarrow> ('z, 't) PageState \<Rightarrow> ('z, 't) PageState" where
  "syncStatusEffect utils st =
     (case rootSync st of
        Value thisRootSync \<Rightarrow>
          (case status thisRootSync of
             Some s \<Rightarrow> st\<lparr>syncStatus := Some (getSyncStatus utils s)\<rparr>
           | None \<Rightarrow> st\<lparr>syncStatus := None\<rparr>)
      | _ \<Rightarrow> st\<lparr>syncStatus := None\<rparr>)"

text \<open>After a commit React runs the effects whose dependency \<^verbatim>\<open>rootSync\<close> has
  changed (and every effect at mount).\<close>

definition runEffects :: "('z, 't) Utils \<Rightarrow> ('z, 't) PageState \<Rightarrow> ('z, 't) PageState" where
  "runEffects utils st =
     (if effectsPending st
      then (syncStatusEffect utils (refreshEffect st))\<lparr>effectsPending := False\<rparr>
      else st)"




section \<open>Initial load\<close>

text \<open>\<^verbatim>\<open>Promise.all\<close> over three promises is rejected with the reason of the
  promise that is rejected first in time and fulfilled with the three values otherwise.
  \<open>settled\<close> lists the positions (0, 1, 2) in the order in which the promises settle;
  positions it leaves out settle afterwards, in the order of the array.\<close>

fun rejection :: "js_error + 'a \<Rightarrow> js_error option" where
  "rejection (Inl e) = Some e"
| "rejection (Inr _) = None"

fun firstRejection :: "nat list \<Rightarrow> js_error option list \<Rightarrow> js_error option" where
  "firstRejection [] rs = None"
| "firstRejection (i # rest) rs =
     (if i < length rs
      then (case rs ! i of Some e \<Rightarrow> Some e | None \<Rightarrow> firstRejection rest rs)
      else firstRejection rest rs)"

definition promiseAll3 ::
  "nat list \<Rightarrow> js_error + 'a \<Rightarrow> js_error + 'b \<Rightarrow> js_error + 'c \<Rightarrow> js_error + 'a \<times> 'b \<times> 'c" where
  "promiseAll3 settled p0 p1 p2 =
     (case firstRejection settled [rejection p0, rejection p1, rejection p2] of
        Some e \<Rightarrow> Inl e
      | None \<Rightarrow>
         (case p0 of
            Inl e \<Rightarrow> Inl e
          | Inr v0 \<Rightarrow>
             (case p1 of
                Inl e \<Rightarrow> Inl e
              | Inr v1 \<Rightarrow> (case p2 of Inl e \<Rightarrow> Inl e | Inr v2 \<Rightarrow> Inr (v0, v1, v2)))))"

text \<open>In \<^verbatim>\<open>loadPackageRevision\<close> the three promises are created one after
  the other, before the join waits for any of them; the lookup of the repository summary, made
  by a helper that receives the API, is recorded as one request.  The response with the package
  revision is a new object.\<close>

definition loadPackageRevision ::
  "nat list \<Rightarrow> ('z, 't) Api \<Rightarrow> ('z, 't) Utils \<Rightarrow> PackageRevisionPageProps \<Rightarrow> ('z, 't) PageState
     \<Rightarrow> (js_error + unit) \<times> ('z, 't) PageState" where
  "loadPackageRevision settled api utils props st =
     (let s = request (GetRepositorySummary (repositoryName props)) st;
          asyncRepositorySummary = getRepositorySummary utils api (repositoryName props);
          s = request (GetPackageRevision (packageName props)) s;
          asyncPackageRevision = getPackageRevision api (packageName props);
          s = request (GetPackageRevisionResources (packageName props)) s;
          asyncResources = getPackageRevisionResources api (packageName props)
      in (case promiseAll3 settled asyncRepositorySummary asyncPackageRevision asyncResources of
            Inl e \<Rightarrow> (Inl e, s)
          | Inr (repositoryResponse, packageRevisionResponse, resourcesResponse) \<Rightarrow>
             (let (r, s) = newObject packageRevisionResponse s
              in (Inr (),
                  s\<lparr>repositorySummary := Some repositoryResponse,
                    packageRevision := Some r,
                    resourcesMap := resources (spec resourcesResponse)\<rparr>))))"

text \<open>\<^verbatim>\<open>useAsync(loadPackageRevision, [repositoryName, packageName, mode])\<close>:
  loading while the function runs, then its error, or none.\<close>

definition useAsync_loadPackageRevision ::
  "nat list \<Rightarrow> ('z, 't) Api \<Rightarrow> ('z, 't) Utils \<Rightarrow> PackageRevisionPageProps \<Rightarrow> ('z, 't) PageState
     \<Rightarrow> ('z, 't) PageState" where
  "useAsync_loadPackageRevision settled api utils props st =
     (case loadPackageRevision settled api utils props (st\<lparr>loading := True\<rparr>) of
        (Inl e, s) \<Rightarrow> s\<lparr>loading := False, error := Some e\<rparr>
      | (Inr _, s) \<Rightarrow> s\<lparr>loading := False, error := None\<rparr>)"

section \<open>Rendering\<close>

text \<open>The elements that \<^verbatim>\<open>renderOptions\<close> pushes, with the properties that
  decide what they do: the key, the target route or the click handler, whether the control is
  disabled, and the label.  Colours and variants are left out.\<close>

datatype ClickHandler =
  SavePackageRevision | MoveToProposed | MoveToDraft | ApprovePackage | CreateSync

datatype AlertText = StateText SyncStatusState | PlainText string

datatype Element =
    Button string Route bool string
  | MaterialButton string ClickHandler bool string
  | Div PackageRevisionLifecycle string
  | Alert string Color AlertText
  | Fragment string

fun elementKey :: "Element \<Rightarrow> string option" where
  "elementKey (Button k _ _ _) = Some k"
| "elementKey (MaterialButton k _ _ _) = Some k"
| "elementKey (Div _ _) = None"
| "elementKey (Alert k _ _) = Some k"
| "elementKey (Fragment k) = Some k"

definition getCurrentSyncStatus :: "('z, 't) PageState \<Rightarrow> Element" where
  "getCurrentSyncStatus st =
     (case syncStatus st of
        Some thisSyncStatus \<Rightarrow>
          Alert ''sync-status'' (getAlertSeverity thisSyncStatus) (StateText (state thisSyncStatus))
      | None \<Rightarrow>
          (if truthy (rootSync st)
           then Alert ''sync-status'' ''warning'' (PlainText ''No Status'')
           else Fragment ''sync-status''))"

text \<open>\<^verbatim>\<open>renderOptions\<close>, in a render past the two early returns:
  \<open>summary\<close> is the repository summary and \<open>thisRevision\<close> the content of the
  package revision object the state refers to.  Every \<^verbatim>\<open>options.push\<close> appends
  to the list.\<close>

definition renderOptions ::
  "('z, 't) Utils \<Rightarrow> PackageRevisionPageProps \<Rightarrow> RepositorySummary \<Rightarrow> 'z PackageRevision
     \<Rightarrow> ('z, 't) PageState \<Rightarrow> Element list" where
  "renderOptions utils props summary thisRevision st =
     (let options = [];
          options =
            (if mode props = EDIT then
               options
                 @ [Button ''edit-package'' (packageRef (repositoryName props) (packageName props))
                      (userInitiatedApiRequest st) ''Cancel'']
                 @ [MaterialButton ''save-package'' SavePackageRevision
                      (userInitiatedApiRequest st) ''Save'']
             else options);
          options =
            (if mode props = VIEW then
               (let isDraft = (lifecycle (spec thisRevision) = DRAFT);
                    isProposed = (lifecycle (spec thisRevision) = PROPOSED);
                    isPublished = (lifecycle (spec thisRevision) = PUBLISHED);
                    isDeployment = isDeploymentRepository utils (repository summary);
                    options =
                      (if isDraft \<or> isProposed then
                         options
                           @ [Div (lifecycle (spec thisRevision))
                                (getPackageDescriptor utils (repository summary))]
                       else options);
                    options =
                      (if isDraft then
                         options
                           @ [Button ''edit-package''
                                (editPackageRef (repositoryName props) (packageName props))
                                (userInitiatedApiRequest st) ''Edit'']
                           @ [MaterialButton ''propose-package'' MoveToProposed
                                (userInitiatedApiRequest st) ''Propose'']
                       else options);
                    options =
                      (if isProposed then
                         options
                           @ [MaterialButton ''draft-package'' MoveToDraft
                                (userInitiatedApiRequest st) ''Move to Draft'']
                           @ [MaterialButton ''approve-package'' ApprovePackage
                                (userInitiatedApiRequest st) ''Approve'']
                       else options);
                    options =
                      (if isPublished \<and> isDeployment \<and> rootSync st \<noteq> Undefined then
                         (if truthy (rootSync st) then options @ [getCurrentSyncStatus st]
                          else
                            options
                              @ [MaterialButton ''create-sync'' CreateSync
                                   (userInitiatedApiRequest st) ''Create Sync''])
                       else options);
                    options =
                      (if length (downstreamRepositories summary) > 0
                          \<and> canCloneOrDeploy utils thisRevision then
                         options
                           @ [Button ''deploy-package''
                                (deployPackageRef (repositoryName props) (packageName props))
                                (userInitiatedApiRequest st) ''Deploy'']
                       else options)
                in options)
             else options)
      in options)"

text \<open>What the component returns: the progress indicator, an error alert, or the page with
  its title, its options and one error banner for each error of the sync status.  The
  breadcrumbs and the two tabs are left out.\<close>

datatype View =
    Progress
  | ErrorAlert string
  | Page string "Element list" "string list"

definition PackageRevisionPage ::
  "('z, 't) Utils \<Rightarrow> PackageRevisionPageProps \<Rightarrow> ('z, 't) PageState \<Rightarrow> View" where
  "PackageRevisionPage utils props st =
     (if loading st then Progress
      else
        (case error st of
           Some e \<Rightarrow> ErrorAlert (message e)
         | None \<Rightarrow>
            (case repositorySummary st of
               None \<Rightarrow> ErrorAlert ''Unexpected undefined value''
             | Some summary \<Rightarrow>
                (case packageRevision st of
                   None \<Rightarrow> ErrorAlert ''Unexpected undefined value''
                 | Some r \<Rightarrow>
                    Page (getPackageRevisionTitle utils (objects st r))
                      (renderOptions utils props summary (objects st r) st)
                      (case syncStatus st of
                         None \<Rightarrow> []
                       | Some thisSyncStatus \<Rightarrow>
                          (case errors thisSyncStatus of None \<Rightarrow> [] | Some es \<Rightarrow> es))))))"


section \<open>Reachable page states\<close>


section \<open>Notions used to state the properties\<close>

text \<open>The package revision with its lifecycle field set and every other field as it
  is.\<close>

definition withLifecycle :: "PackageRevisionLifecycle \<Rightarrow> 'z PackageRevision \<Rightarrow> 'z PackageRevision" where
  "withLifecycle l revision = revision\<lparr>spec := (spec revision)\<lparr>lifecycle := l\<rparr>\<rparr>"

text \<open>The package revision that the page holds: the content of the object to which the
  \<^verbatim>\<open>packageRevision\<close> state variable refers.\<close>

definition heldRevision :: "('z, 't) PageState \<Rightarrow> 'z PackageRevision option" where
  "heldRevision st = map_option (objects st) (packageRevision st)"



section \<open>Example inputs\<close>

text \<open>A package revision named \<open>repo:pkg:v1\<close>, a repository with or without a secret
  reference, a backend in which the listed methods reject and the others succeed, helper
  functions, and the state of a loaded page holding the revision at reference 0.\<close>

definition exampleRevision :: "PackageRevisionLifecycle \<Rightarrow> unit PackageRevision" where
  "exampleRevision l = \<lparr>metadata = \<lparr>name = ''repo:pkg:v1''\<rparr>, spec = \<lparr>lifecycle = l\<rparr>\<rparr>"

definition exampleSummary :: "string option \<Rightarrow> RepositorySummary" where
  "exampleSummary secret =
     \<lparr>repository =
        \<lparr>metadata = \<lparr>name = ''repo''\<rparr>,
         spec = \<lparr>git = Some \<lparr>secretRef = map_option (\<lambda>n. \<lparr>name = n\<rparr>) secret\<rparr>\<rparr>\<rparr>,
      downstreamRepositories = []\<rparr>"

definition answer :: "string list \<Rightarrow> string \<Rightarrow> 'a \<Rightarrow> js_error + 'a" where
  "answer failing method v = (if method \<in> set failing then Inl (Error method) else Inr v)"

definition exampleApi :: "string list \<Rightarrow> (unit, string) Api" where
  "exampleApi failing =
     \<lparr>getPackageRevision = (\<lambda>n. answer failing ''getPackageRevision'' (exampleRevision PUBLISHED)),
      getPackageRevisionResources = (\<lambda>n. answer failing ''getPackageRevisionResources''
         \<lparr>metadata = \<lparr>name = n\<rparr>, spec = \<lparr>resources = [(''Kptfile'', ''kind: Kptfile'')]\<rparr>\<rparr>),
      replacePackageRevision = (\<lambda>revision. answer failing ''replacePackageRevision'' revision),
      approvePackageRevision = (\<lambda>revision. answer failing ''approvePackageRevision'' revision),
      replacePackageRevisionResources = (\<lambda>r. answer failing ''replacePackageRevisionResources'' ()),
      listRootSyncs = answer failing ''listRootSyncs''
         [\<lparr>metadata = \<lparr>name = ''repo-pkg-v1''\<rparr>, status = None\<rparr>],
      getRootSync = (\<lambda>n. answer failing ''getRootSync'' \<lparr>metadata = \<lparr>name = n\<rparr>, status = Some ''Synced''\<rparr>),
      createRootSync = (\<lambda>r. answer failing ''createRootSync'' r),
      getSecret = (\<lambda>n. answer failing ''getSecret'' \<lparr>metadata = \<lparr>name = n\<rparr>, data = [(''token'', ''abc'')]\<rparr>),
      createSecret = (\<lambda>s. answer failing ''createSecret'' s)\<rparr>"

definition exampleUtils :: "(unit, string) Utils" where
  "exampleUtils =
     \<lparr>getRepositorySummary = (\<lambda>api n. Inr (exampleSummary (Some ''repo-secret''))),
      findRootSyncForPackage = (\<lambda>all revision repo. case all of [] \<Rightarrow> None | x # _ \<Rightarrow> Some x),
      getRootSync_util = (\<lambda>repo revision secret. Inr \<lparr>metadata = \<lparr>name = ''repo-pkg-v1''\<rparr>, status = None\<rparr>),
      getRootSyncSecret = (\<lambda>n s. Inr (s\<lparr>metadata := \<lparr>name = n\<rparr>\<rparr>)),
      getSyncStatus = (\<lambda>s. \<lparr>state = (if s = ''Synced'' then SYNCED else OTHER s), errors = None\<rparr>),
      canCloneOrDeploy = (\<lambda>revision. lifecycle (spec revision) = PUBLISHED),
      getPackageRevisionTitle = (\<lambda>revision. name (metadata revision)),
      getPackageRevisionResourcesResource = (\<lambda>n m. \<lparr>metadata = \<lparr>name = n\<rparr>, spec = \<lparr>resources = m\<rparr>\<rparr>),
      getPackageDescriptor = (\<lambda>repo. ''Deployment''),
      isDeploymentRepository = (\<lambda>repo. True)\<rparr>"

definition exampleState :: "PackageRevisionLifecycle \<Rightarrow> string option \<Rightarrow> (unit, string) PageState" where
  "exampleState l secret =
     (initialState (\<lambda>_. exampleRevision l))
       \<lparr>nextRef := 1, repositorySummary := Some (exampleSummary secret), packageRevision := Some 0,
        loading := False, effectsPending := False\<rparr>"

definition exampleProps :: PackageRevisionPageProps where
  "exampleProps = \<lparr>mode = VIEW, repositoryName = ''repo'', packageName = ''repo:pkg:v1''\<rparr>"

text \<open>The example page after the mount, after a load in which every request succeeds, after the
  lookup has found the RootSync of the revision (which has no status yet), and after one
  polling cycle (in which the RootSync reports a status).\<close>

definition exampleMounted :: "(unit, string) PageState" where
  "exampleMounted = runEffects exampleUtils (initialState (\<lambda>_. exampleRevision DRAFT))"






section \<open>Basic facts\<close>

lemmas prims = request_def newObject_def cloneDeep_def assignLifecycle_def tryFinally_def
  setUserInitiatedApiRequest_def setPackageRevision_def setRootSync_def
lemmas examples = exampleRevision_def exampleSummary_def answer_def exampleApi_def exampleUtils_def
  exampleState_def exampleProps_def initialState_def

section \<open>Role binding metadata: one entry per subject\<close>








section \<open>Severity of a sync status\<close>

text \<open>
  Claim C5.  Whatever the other fields of a sync status are, the severity is \<open>error\<close>
  for the states Error and Stalled, \<open>info\<close> for Reconciling and Pending,
  \<open>success\<close> for Synced, and \<open>error\<close> for any other state value.
\<close>

theorem getAlertSeverity_mapping:
  "getAlertSeverity (s\<lparr>state := ERROR\<rparr>) = ''error''
   \<and> getAlertSeverity (s\<lparr>state := STALLED\<rparr>) = ''error''
   \<and> getAlertSeverity (s\<lparr>state := RECONCILING\<rparr>) = ''info''
   \<and> getAlertSeverity (s\<lparr>state := PENDING\<rparr>) = ''info''
   \<and> getAlertSeverity (s\<lparr>state := SYNCED\<rparr>) = ''success''
   \<and> getAlertSeverity (s\<lparr>state := OTHER x\<rparr>) = ''error''"
  by simp

section \<open>Options of the page in view mode\<close>

text \<open>
  Claim C1.  In view mode the options are, by lifecycle: for a draft the lifecycle label, Edit
  and Propose; for a proposed revision the label, Move to Draft and Approve; for a published
  revision in a deployment repository nothing while the sync is unresolved, Create Sync when it
  is resolved and absent, and the sync status display when a sync is tracked; nothing for a
  published revision elsewhere.  Deploy is appended exactly when the summary has a downstream
  repository and the revision can be cloned or deployed.  The display of a tracked sync is an
  alert: that of the sync status when there is one, the No Status warning otherwise.
\<close>

theorem renderOptions_view_table:
  "renderOptions utils (props\<lparr>mode := VIEW\<rparr>) summary revision st =
     (case lifecycle (spec revision) of
        DRAFT \<Rightarrow>
          [Div DRAFT (getPackageDescriptor utils (repository summary)),
           Button ''edit-package'' (editPackageRef (repositoryName props) (packageName props))
             (userInitiatedApiRequest st) ''Edit'',
           MaterialButton ''propose-package'' MoveToProposed (userInitiatedApiRequest st) ''Propose'']
      | PROPOSED \<Rightarrow>
          [Div PROPOSED (getPackageDescriptor utils (repository summary)),
           MaterialButton ''draft-package'' MoveToDraft (userInitiatedApiRequest st) ''Move to Draft'',
           MaterialButton ''approve-package'' ApprovePackage (userInitiatedApiRequest st) ''Approve'']
      | PUBLISHED \<Rightarrow>
          (if isDeploymentRepository utils (repository summary) then
             (case rootSync st of
                Undefined \<Rightarrow> []
              | Null \<Rightarrow>
                  [MaterialButton ''create-sync'' CreateSync (userInitiatedApiRequest st) ''Create Sync'']
              | Value _ \<Rightarrow> [getCurrentSyncStatus st])
           else []))
     @ (if downstreamRepositories summary \<noteq> [] \<and> canCloneOrDeploy utils revision
        then [Button ''deploy-package'' (deployPackageRef (repositoryName props) (packageName props))
                (userInitiatedApiRequest st) ''Deploy'']
        else [])
   \<and> getCurrentSyncStatus (st\<lparr>rootSync := Value thisRootSync\<rparr>) =
       Alert ''sync-status''
         (case syncStatus st of Some s \<Rightarrow> getAlertSeverity s | None \<Rightarrow> ''warning'')
         (case syncStatus st of Some s \<Rightarrow> StateText (state s) | None \<Rightarrow> PlainText ''No Status'')
   \<and> List.map_filter elementKey (renderOptions utils (props\<lparr>mode := VIEW\<rparr>) summary revision st) =
       (case lifecycle (spec revision) of
          DRAFT \<Rightarrow> [''edit-package'', ''propose-package'']
        | PROPOSED \<Rightarrow> [''draft-package'', ''approve-package'']
        | PUBLISHED \<Rightarrow>
            (if isDeploymentRepository utils (repository summary) then
               (case rootSync st of
                  Undefined \<Rightarrow> []
                | Null \<Rightarrow> [''create-sync'']
                | Value _ \<Rightarrow> [''sync-status''])
             else []))
       @ (if downstreamRepositories summary \<noteq> [] \<and> canCloneOrDeploy utils revision
          then [''deploy-package''] else [])"
proof (intro conjI)
  show "renderOptions utils (props\<lparr>mode := VIEW\<rparr>) summary revision st =
     (case lifecycle (spec revision) of
        DRAFT \<Rightarrow>
          [Div DRAFT (getPackageDescriptor utils (repository summary)),
           Button ''edit-package'' (editPackageRef (repositoryName props) (packageName props))
             (userInitiatedApiRequest st) ''Edit'',
           MaterialButton ''propose-package'' MoveToProposed (userInitiatedApiRequest st) ''Propose'']
      | PROPOSED \<Rightarrow>
          [Div PROPOSED (getPackageDescriptor utils (repository summary)),
           MaterialButton ''draft-package'' MoveToDraft (userInitiatedApiRequest st) ''Move to Draft'',
           MaterialButton ''approve-package'' ApprovePackage (userInitiatedApiRequest st) ''Approve'']
      | PUBLISHED \<Rightarrow>
          (if isDeploymentRepository utils (repository summary) then
             (case rootSync st of
                Undefined \<Rightarrow> []
              | Null \<Rightarrow>
                  [MaterialButton ''create-sync'' CreateSync (userInitiatedApiRequest st) ''Create Sync'']
              | Value _ \<Rightarrow> [getCurrentSyncStatus st])
           else []))
     @ (if downstreamRepositories summary \<noteq> [] \<and> canCloneOrDeploy utils revision
        then [Button ''deploy-package'' (deployPackageRef (repositoryName props) (packageName props))
                (userInitiatedApiRequest st) ''Deploy'']
        else [])"
    by (cases "lifecycle (spec revision)"; cases "rootSync st")
       (simp_all add: renderOptions_def Let_def)
  show "getCurrentSyncStatus (st\<lparr>rootSync := Value thisRootSync\<rparr>) =
       Alert ''sync-status''
         (case syncStatus st of Some s \<Rightarrow> getAlertSeverity s | None \<Rightarrow> ''warning'')
         (case syncStatus st of Some s \<Rightarrow> StateText (state s) | None \<Rightarrow> PlainText ''No Status'')"
    by (simp add: getCurrentSyncStatus_def split: option.splits)
  show "List.map_filter elementKey (renderOptions utils (props\<lparr>mode := VIEW\<rparr>) summary revision st) =
       (case lifecycle (spec revision) of
          DRAFT \<Rightarrow> [''edit-package'', ''propose-package'']
        | PROPOSED \<Rightarrow> [''draft-package'', ''approve-package'']
        | PUBLISHED \<Rightarrow>
            (if isDeploymentRepository utils (repository summary) then
               (case rootSync st of
                  Undefined \<Rightarrow> []
                | Null \<Rightarrow> [''create-sync'']
                | Value _ \<Rightarrow> [''sync-status''])
             else []))
       @ (if downstreamRepositories summary \<noteq> [] \<and> canCloneOrDeploy utils revision
          then [''deploy-package''] else [])"
    by (cases "lifecycle (spec revision)"; cases "rootSync st")
       (simp_all add: renderOptions_def Let_def List.map_filter_simps getCurrentSyncStatus_def
          split: option.splits)
qed

section \<open>Lifecycle transitions\<close>

text \<open>What each transition returns and the state it leaves, for either answer of the
  backend.\<close>

lemma moveToDraft_eq:
  "moveToDraft api r st =
     (case replacePackageRevision api (withLifecycle DRAFT (objects st r)) of
        Inl e \<Rightarrow>
          (Inl e,
           st\<lparr>objects := (objects st)(nextRef st := withLifecycle DRAFT (objects st r)),
              nextRef := Suc (nextRef st),
              calls := calls st @ [ReplacePackageRevision (withLifecycle DRAFT (objects st r))],
              userInitiatedApiRequest := False\<rparr>)
      | Inr response \<Rightarrow>
          (Inr (),
           st\<lparr>objects := (objects st)(nextRef st := withLifecycle DRAFT (objects st r),
                                      Suc (nextRef st) := response),
              nextRef := Suc (Suc (nextRef st)),
              calls := calls st @ [ReplacePackageRevision (withLifecycle DRAFT (objects st r))],
              packageRevision := Some (Suc (nextRef st)),
              userInitiatedApiRequest := False\<rparr>))"
  by (simp add: moveToDraft_def prims withLifecycle_def Let_def split: sum.splits)

lemma moveToProposed_eq:
  "moveToProposed api r st =
     (case replacePackageRevision api (withLifecycle PROPOSED (objects st r)) of
        Inl e \<Rightarrow>
          (Inl e,
           st\<lparr>objects := (objects st)(nextRef st := withLifecycle PROPOSED (objects st r)),
              nextRef := Suc (nextRef st),
              calls := calls st @ [ReplacePackageRevision (withLifecycle PROPOSED (objects st r))],
              userInitiatedApiRequest := False\<rparr>)
      | Inr response \<Rightarrow>
          (Inr (),
           st\<lparr>objects := (objects st)(nextRef st := withLifecycle PROPOSED (objects st r),
                                      Suc (nextRef st) := response),
              nextRef := Suc (Suc (nextRef st)),
              calls := calls st @ [ReplacePackageRevision (withLifecycle PROPOSED (objects st r))],
              packageRevision := Some (Suc (nextRef st)),
              userInitiatedApiRequest := False\<rparr>))"
  by (simp add: moveToProposed_def prims withLifecycle_def Let_def split: sum.splits)

lemma approvePackage_eq:
  "approvePackage api r st =
     (case approvePackageRevision api (withLifecycle PUBLISHED (objects st r)) of
        Inl e \<Rightarrow>
          (Inl e,
           st\<lparr>objects := (objects st)(nextRef st := withLifecycle PUBLISHED (objects st r)),
              nextRef := Suc (nextRef st),
              calls := calls st @ [ApprovePackageRevision (withLifecycle PUBLISHED (objects st r))],
              userInitiatedApiRequest := False\<rparr>)
      | Inr response \<Rightarrow>
          (Inr (),
           st\<lparr>objects := (objects st)(nextRef st := withLifecycle PUBLISHED (objects st r),
                                      Suc (nextRef st) := response),
              nextRef := Suc (Suc (nextRef st)),
              calls := calls st @ [ApprovePackageRevision (withLifecycle PUBLISHED (objects st r))],
              packageRevision := Some (Suc (nextRef st)),
              userInitiatedApiRequest := False\<rparr>))"
  by (simp add: approvePackage_def prims withLifecycle_def Let_def split: sum.splits)

text \<open>
  Claim C2.  Each transition is a full-resource replace.  It sends exactly one request, which
  carries the held package revision with the lifecycle field set to the target state and every
  other field as it is; the request goes through \<^verbatim>\<open>replacePackageRevision\<close> for
  the moves to Draft and to Proposed and through \<^verbatim>\<open>approvePackageRevision\<close> for
  the approval.  The held object itself is not modified (the change is made on a deep copy), and
  when the backend accepts the request the page holds the resource of the response.
\<close>

theorem transitions_submit_whole_resource:
  "r < nextRef st \<Longrightarrow>
     calls (snd (moveToDraft api r st)) =
       calls st @ [ReplacePackageRevision (withLifecycle DRAFT (objects st r))]
   \<and> calls (snd (moveToProposed api r st)) =
       calls st @ [ReplacePackageRevision (withLifecycle PROPOSED (objects st r))]
   \<and> calls (snd (approvePackage api r st)) =
       calls st @ [ApprovePackageRevision (withLifecycle PUBLISHED (objects st r))]
   \<and> objects (snd (moveToDraft api r st)) r = objects st r
   \<and> objects (snd (moveToProposed api r st)) r = objects st r
   \<and> objects (snd (approvePackage api r st)) r = objects st r
   \<and> (\<forall>response. replacePackageRevision api (withLifecycle DRAFT (objects st r)) = Inr response \<longrightarrow>
          fst (moveToDraft api r st) = Inr ()
          \<and> heldRevision (snd (moveToDraft api r st)) = Some response)
   \<and> (\<forall>response. replacePackageRevision api (withLifecycle PROPOSED (objects st r)) = Inr response \<longrightarrow>
          fst (moveToProposed api r st) = Inr ()
          \<and> heldRevision (snd (moveToProposed api r st)) = Some response)
   \<and> (\<forall>response. approvePackageRevision api (withLifecycle PUBLISHED (objects st r)) = Inr response \<longrightarrow>
          fst (approvePackage api r st) = Inr ()
          \<and> heldRevision (snd (approvePackage api r st)) = Some response)"
  by (simp add: moveToDraft_eq moveToProposed_eq approvePackage_eq heldRevision_def
        split: sum.splits)

theorem transitions_submit_whole_resource_witness:
  "calls (snd (moveToDraft (exampleApi []) 0 (exampleState PROPOSED None))) =
     [ReplacePackageRevision (exampleRevision DRAFT)]
   \<and> calls (snd (approvePackage (exampleApi []) 0 (exampleState PROPOSED None))) =
     [ApprovePackageRevision (exampleRevision PUBLISHED)]
   \<and> heldRevision (snd (approvePackage (exampleApi []) 0 (exampleState PROPOSED None))) =
     Some (exampleRevision PUBLISHED)
   \<and> objects (snd (approvePackage (exampleApi []) 0 (exampleState PROPOSED None))) 0 =
     exampleRevision PROPOSED"
proof -
  let ?st = "exampleState PROPOSED None"
  have allocated: "0 < nextRef ?st"
    by (simp add: examples)
  have held: "objects ?st 0 = exampleRevision PROPOSED" and log: "calls ?st = []"
    by (simp_all add: examples)
  have target: "withLifecycle l (exampleRevision PROPOSED) = exampleRevision l" for l
    by (simp add: withLifecycle_def exampleRevision_def)
  have accepted: "approvePackageRevision (exampleApi []) (exampleRevision PUBLISHED) =
      Inr (exampleRevision PUBLISHED)"
    by (simp add: exampleApi_def answer_def)
  from transitions_submit_whole_resource [OF allocated, of "exampleApi []"] accepted
  show ?thesis
    by (simp add: held log target)
qed

text \<open>
  Claim C3.  Each transition leaves the in-flight flag cleared, whether the request is accepted
  or rejected; when it is rejected the rejection is the outcome of the handler, the state
  variable still refers to the same object, and the revision the page holds is unchanged.
\<close>

theorem failed_transition_keeps_revision:
  "packageRevision st = Some r \<Longrightarrow> r < nextRef st \<Longrightarrow>
     \<not> userInitiatedApiRequest (snd (moveToDraft api r st))
   \<and> \<not> userInitiatedApiRequest (snd (moveToProposed api r st))
   \<and> \<not> userInitiatedApiRequest (snd (approvePackage api r st))
   \<and> (\<forall>e. replacePackageRevision api (withLifecycle DRAFT (objects st r)) = Inl e \<longrightarrow>
          fst (moveToDraft api r st) = Inl e
          \<and> packageRevision (snd (moveToDraft api r st)) = Some r
          \<and> heldRevision (snd (moveToDraft api r st)) = heldRevision st)
   \<and> (\<forall>e. replacePackageRevision api (withLifecycle PROPOSED (objects st r)) = Inl e \<longrightarrow>
          fst (moveToProposed api r st) = Inl e
          \<and> packageRevision (snd (moveToProposed api r st)) = Some r
          \<and> heldRevision (snd (moveToProposed api r st)) = heldRevision st)
   \<and> (\<forall>e. approvePackageRevision api (withLifecycle PUBLISHED (objects st r)) = Inl e \<longrightarrow>
          fst (approvePackage api r st) = Inl e
          \<and> packageRevision (snd (approvePackage api r st)) = Some r
          \<and> heldRevision (snd (approvePackage api r st)) = heldRevision st)"
  by (simp add: moveToDraft_eq moveToProposed_eq approvePackage_eq heldRevision_def
        split: sum.splits)

theorem failed_transition_keeps_revision_witness:
  "fst (moveToDraft (exampleApi [''replacePackageRevision'']) 0 (exampleState PROPOSED None)) =
     Inl (Error ''replacePackageRevision'')
   \<and> heldRevision (snd (moveToDraft (exampleApi [''replacePackageRevision'']) 0 (exampleState PROPOSED None))) =
     Some (exampleRevision PROPOSED)
   \<and> \<not> userInitiatedApiRequest
        (snd (moveToDraft (exampleApi [''replacePackageRevision'']) 0 (exampleState PROPOSED None)))"
proof -
  let ?st = "exampleState PROPOSED None"
  let ?api = "exampleApi [''replacePackageRevision'']"
  have held: "packageRevision ?st = Some 0" and allocated: "0 < nextRef ?st"
    by (simp_all add: examples)
  have before: "heldRevision ?st = Some (exampleRevision PROPOSED)"
    by (simp add: heldRevision_def examples)
  have rejected: "replacePackageRevision ?api (withLifecycle DRAFT (objects ?st 0)) =
      Inl (Error ''replacePackageRevision'')"
    by (simp add: exampleApi_def answer_def)
  from failed_transition_keeps_revision [OF held allocated, of ?api] rejected
  show ?thesis
    by (simp add: before)
qed

section \<open>Sync creation\<close>

lemma createSync_noop:
  "repoSecretName summary = None \<or> repoSecretName summary = Some [] \<Longrightarrow>
     createSync api utils summary r st = (Inr (), st\<lparr>userInitiatedApiRequest := False\<rparr>)"
  by (auto simp: createSync_def prims)

lemma createSync_flag: "\<not> userInitiatedApiRequest (snd (createSync api utils summary r st))"
  by (simp add: createSync_def prims Let_def split: sum.splits option.splits prod.splits)


text \<open>
  Claim C4.  When the repository has no secret name (no git details, no secret reference, or
  an empty name), \<^verbatim>\<open>createSync\<close> returns normally and leaves the state as it
  was but for the cleared in-flight flag: no request is sent and the tracked RootSync is
  unchanged.  With a secret name the steps run in order, each on the result of the one before:
  the secret is fetched, the sync secret is derived and created, the RootSync resource is
  constructed and created, and the created resource becomes the tracked RootSync.  A failure of
  any step is the outcome of the handler, the steps after it are not run, the tracked RootSync is
  unchanged, and the in-flight flag is cleared all the same.
\<close>

theorem createSync_contract:
  "(repoSecretName summary = None \<or> repoSecretName summary = Some [] \<longrightarrow>
      createSync api utils summary r st = (Inr (), st\<lparr>userInitiatedApiRequest := False\<rparr>)
      \<and> calls (snd (createSync api utils summary r st)) = calls st
      \<and> rootSync (snd (createSync api utils summary r st)) = rootSync st)
   \<and> (repoSecretName summary = Some n \<and> n \<noteq> [] \<longrightarrow>
        (case createSync api utils summary r st of
           (outcome, st') \<Rightarrow>
             \<not> userInitiatedApiRequest st'
             \<and> (case getSecret api n of
                  Inl e \<Rightarrow>
                    outcome = Inl e \<and> calls st' = calls st @ [GetSecret n] \<and> rootSync st' = rootSync st
                | Inr repoSecret \<Rightarrow>
                   (case getRootSyncSecret utils (newSecretName (objects st r)) repoSecret of
                      Inl e \<Rightarrow>
                        outcome = Inl e \<and> calls st' = calls st @ [GetSecret n]
                        \<and> rootSync st' = rootSync st
                    | Inr syncSecret \<Rightarrow>
                       (case createSecret api syncSecret of
                          Inl e \<Rightarrow>
                            outcome = Inl e
                            \<and> calls st' = calls st @ [GetSecret n, CreateSecret syncSecret]
                            \<and> rootSync st' = rootSync st
                        | Inr createdSyncSecret \<Rightarrow>
                           (case getRootSync_util utils (repository summary) (objects st r)
                                   (name (metadata createdSyncSecret)) of
                              Inl e \<Rightarrow>
                                outcome = Inl e
                                \<and> calls st' = calls st @ [GetSecret n, CreateSecret syncSecret]
                                \<and> rootSync st' = rootSync st
                            | Inr rootSyncResource \<Rightarrow>
                               (case createRootSync api rootSyncResource of
                                  Inl e \<Rightarrow>
                                    outcome = Inl e
                                    \<and> calls st' =
                                        calls st @ [GetSecret n, CreateSecret syncSecret,
                                                    CreateRootSync rootSyncResource]
                                    \<and> rootSync st' = rootSync st
                                | Inr newRootSync \<Rightarrow>
                                    outcome = Inr ()
                                    \<and> calls st' =
                                        calls st @ [GetSecret n, CreateSecret syncSecret,
                                                    CreateRootSync rootSyncResource]
                                    \<and> rootSync st' = Value newRootSync)))))))"
proof (intro conjI impI)
  assume "repoSecretName summary = None \<or> repoSecretName summary = Some []"
  then show "createSync api utils summary r st = (Inr (), st\<lparr>userInitiatedApiRequest := False\<rparr>)"
    by (rule createSync_noop)
  then show "calls (snd (createSync api utils summary r st)) = calls st"
    and "rootSync (snd (createSync api utils summary r st)) = rootSync st"
    by simp_all
next
  assume "repoSecretName summary = Some n \<and> n \<noteq> []"
  then show "case createSync api utils summary r st of
           (outcome, st') \<Rightarrow>
             \<not> userInitiatedApiRequest st'
             \<and> (case getSecret api n of
                  Inl e \<Rightarrow>
                    outcome = Inl e \<and> calls st' = calls st @ [GetSecret n] \<and> rootSync st' = rootSync st
                | Inr repoSecret \<Rightarrow>
                   (case getRootSyncSecret utils (newSecretName (objects st r)) repoSecret of
                      Inl e \<Rightarrow>
                        outcome = Inl e \<and> calls st' = calls st @ [GetSecret n]
                        \<and> rootSync st' = rootSync st
                    | Inr syncSecret \<Rightarrow>
                       (case createSecret api syncSecret of
                          Inl e \<Rightarrow>
                            outcome = Inl e
                            \<and> calls st' = calls st @ [GetSecret n, CreateSecret syncSecret]
                            \<and> rootSync st' = rootSync st
                        | Inr createdSyncSecret \<Rightarrow>
                           (case getRootSync_util utils (repository summary) (objects st r)
                                   (name (metadata createdSyncSecret)) of
                              Inl e \<Rightarrow>
                                outcome = Inl e
                                \<and> calls st' = calls st @ [GetSecret n, CreateSecret syncSecret]
                                \<and> rootSync st' = rootSync st
                            | Inr rootSyncResource \<Rightarrow>
                               (case createRootSync api rootSyncResource of
                                  Inl e \<Rightarrow>
                                    outcome = Inl e
                                    \<and> calls st' =
                                        calls st @ [GetSecret n, CreateSecret syncSecret,
                                                    CreateRootSync rootSyncResource]
                                    \<and> rootSync st' = rootSync st
                                | Inr newRootSync \<Rightarrow>
                                    outcome = Inr ()
                                    \<and> calls st' =
                                        calls st @ [GetSecret n, CreateSecret syncSecret,
                                                    CreateRootSync rootSyncResource]
                                    \<and> rootSync st' = Value newRootSync)))))"
    by (simp add: createSync_def prims Let_def split: sum.splits)
qed

theorem createSync_contract_witness:
  "createSync (exampleApi []) exampleUtils (exampleSummary None) 0 (exampleState PUBLISHED None) =
     (Inr (), exampleState PUBLISHED None)
   \<and> fst (createSync (exampleApi []) exampleUtils (exampleSummary (Some ''repo-secret'')) 0
        (exampleState PUBLISHED (Some ''repo-secret''))) = Inr ()
   \<and> calls (snd (createSync (exampleApi []) exampleUtils (exampleSummary (Some ''repo-secret'')) 0
        (exampleState PUBLISHED (Some ''repo-secret'')))) =
     [GetSecret ''repo-secret'',
      CreateSecret \<lparr>metadata = \<lparr>name = ''repo-pkg-v1-sync''\<rparr>, data = [(''token'', ''abc'')]\<rparr>,
      CreateRootSync \<lparr>metadata = \<lparr>name = ''repo-pkg-v1''\<rparr>, status = None\<rparr>]
   \<and> fst (createSync (exampleApi [''createSecret'']) exampleUtils (exampleSummary (Some ''repo-secret'')) 0
        (exampleState PUBLISHED (Some ''repo-secret''))) = Inl (Error ''createSecret'')
   \<and> \<not> userInitiatedApiRequest
        (snd (createSync (exampleApi [''createSecret'']) exampleUtils (exampleSummary (Some ''repo-secret'')) 0
           (exampleState PUBLISHED (Some ''repo-secret''))))"
proof -
  let ?st = "exampleState PUBLISHED (Some ''repo-secret'')"
  let ?summary = "exampleSummary (Some ''repo-secret'')"
  let ?repoSecret = "\<lparr>metadata = \<lparr>name = ''repo-secret''\<rparr>, data = [(''token'', ''abc'')]\<rparr>"
  let ?syncSecret = "\<lparr>metadata = \<lparr>name = ''repo-pkg-v1-sync''\<rparr>, data = [(''token'', ''abc'')]\<rparr>"
  let ?resource = "\<lparr>metadata = \<lparr>name = ''repo-pkg-v1''\<rparr>, status = None\<rparr> :: string RootSync"
  have none: "repoSecretName (exampleSummary None) = None"
    and some: "repoSecretName ?summary = Some ''repo-secret''"
    by (simp_all add: repoSecretName_def exampleSummary_def)
  have idle: "(exampleState PUBLISHED None)\<lparr>userInitiatedApiRequest := False\<rparr> = exampleState PUBLISHED None"
    by (simp add: examples)
  have log: "calls ?st = []"
    by (simp add: examples)
  have name: "newSecretName (objects ?st 0) = ''repo-pkg-v1-sync''"
    by (simp add: examples newSecretName_def replaceAll_def)
  have secret: "getSecret (exampleApi failing) ''repo-secret'' =
      (if ''getSecret'' \<in> set failing then Inl (Error ''getSecret'') else Inr ?repoSecret)" for failing
    by (simp add: exampleApi_def answer_def)
  have derived: "getRootSyncSecret exampleUtils ''repo-pkg-v1-sync'' ?repoSecret = Inr ?syncSecret"
    by (simp add: exampleUtils_def)
  have created: "createSecret (exampleApi failing) ?syncSecret =
      (if ''createSecret'' \<in> set failing then Inl (Error ''createSecret'') else Inr ?syncSecret)" for failing
    by (simp add: exampleApi_def answer_def)
  have resource: "getRootSync_util exampleUtils (repository ?summary) (objects ?st 0) ''repo-pkg-v1-sync'' =
      Inr ?resource"
    by (simp add: exampleUtils_def)
  have sync: "createRootSync (exampleApi []) ?resource = Inr ?resource"
    by (simp add: exampleApi_def answer_def)
  from createSync_contract [of "exampleSummary None" "exampleApi []" exampleUtils 0
      "exampleState PUBLISHED None"] none
  have 1: "createSync (exampleApi []) exampleUtils (exampleSummary None) 0 (exampleState PUBLISHED None) =
     (Inr (), exampleState PUBLISHED None)"
    by (simp add: idle)
  from createSync_contract [of ?summary "exampleApi []" exampleUtils 0 ?st "''repo-secret''"] some
  have 2: "fst (createSync (exampleApi []) exampleUtils ?summary 0 ?st) = Inr ()
      \<and> calls (snd (createSync (exampleApi []) exampleUtils ?summary 0 ?st)) =
          [GetSecret ''repo-secret'', CreateSecret ?syncSecret, CreateRootSync ?resource]"
    by (simp add: case_prod_beta log name secret derived created resource sync)
  from createSync_contract [of ?summary "exampleApi [''createSecret'']" exampleUtils 0 ?st "''repo-secret''"] some
  have 3: "fst (createSync (exampleApi [''createSecret'']) exampleUtils ?summary 0 ?st) = Inl (Error ''createSecret'')
      \<and> \<not> userInitiatedApiRequest (snd (createSync (exampleApi [''createSecret'']) exampleUtils ?summary 0 ?st))"
    by (simp add: case_prod_beta log name secret derived created)
  from 1 2 3 show ?thesis
    by simp
qed

text \<open>
  Claim C7.  The name of the sync secret is the name of the package revision with every colon
  replaced by a hyphen, followed by \<open>-sync\<close>; for a revision named \<open>repo:pkg:v1\<close> it
  is \<open>repo-pkg-v1-sync\<close>; and this is the name under which \<^verbatim>\<open>createSync\<close>
  derives the secret that it then creates.
\<close>

theorem newSecretName_derivation:
  "newSecretName revision =
     map (\<lambda>c. if c = CHR '':'' then CHR ''-'' else c) (name (metadata revision)) @ ''-sync''
   \<and> newSecretName (revision\<lparr>metadata := \<lparr>name = ''repo:pkg:v1''\<rparr>\<rparr>) = ''repo-pkg-v1-sync''
   \<and> (repoSecretName summary = Some n \<and> n \<noteq> [] \<and> getSecret api n = Inr repoSecret
        \<and> getRootSyncSecret utils
             (map (\<lambda>c. if c = CHR '':'' then CHR ''-'' else c) (name (metadata (objects st r))) @ ''-sync'')
             repoSecret = Inr syncSecret
      \<longrightarrow> take 2 (drop (length (calls st)) (calls (snd (createSync api utils summary r st))))
            = [GetSecret n, CreateSecret syncSecret])"
proof -
  have m: "replaceAll (CHR '':'') ''-'' s = map (\<lambda>c. if c = CHR '':'' then CHR ''-'' else c) s" for s
    by (induction s) (simp_all add: replaceAll_def)
  have 1: "newSecretName revision =
     map (\<lambda>c. if c = CHR '':'' then CHR ''-'' else c) (name (metadata revision)) @ ''-sync''"
    for revision :: "'z PackageRevision"
    by (simp add: newSecretName_def m)
  have 2: "newSecretName (revision\<lparr>metadata := \<lparr>name = ''repo:pkg:v1''\<rparr>\<rparr>) = ''repo-pkg-v1-sync''"
    by (simp add: 1)
  have 3: "take 2 (drop (length (calls st)) (calls (snd (createSync api utils summary r st))))
            = [GetSecret n, CreateSecret syncSecret]"
    if "repoSecretName summary = Some n" "n \<noteq> []" "getSecret api n = Inr repoSecret"
       "getRootSyncSecret utils
             (map (\<lambda>c. if c = CHR '':'' then CHR ''-'' else c) (name (metadata (objects st r))) @ ''-sync'')
             repoSecret = Inr syncSecret"
    using that
    by (simp add: createSync_def prims Let_def 1 split: sum.splits)
  from 1 2 3 show ?thesis by blast
qed

theorem newSecretName_derivation_witness:
  "take 2 (calls (snd (createSync (exampleApi []) exampleUtils (exampleSummary (Some ''repo-secret'')) 0
       (exampleState PUBLISHED (Some ''repo-secret''))))) =
     [GetSecret ''repo-secret'',
      CreateSecret \<lparr>metadata = \<lparr>name = ''repo-pkg-v1-sync''\<rparr>, data = [(''token'', ''abc'')]\<rparr>]"
proof -
  let ?st = "exampleState PUBLISHED (Some ''repo-secret'')"
  let ?summary = "exampleSummary (Some ''repo-secret'')"
  let ?repoSecret = "\<lparr>metadata = \<lparr>name = ''repo-secret''\<rparr>, data = [(''token'', ''abc'')]\<rparr>"
  let ?syncSecret = "\<lparr>metadata = \<lparr>name = ''repo-pkg-v1-sync''\<rparr>, data = [(''token'', ''abc'')]\<rparr>"
  have 1: "repoSecretName ?summary = Some ''repo-secret''"
    by (simp add: repoSecretName_def exampleSummary_def)
  have 2: "getSecret (exampleApi []) ''repo-secret'' = Inr ?repoSecret"
    by (simp add: exampleApi_def answer_def)
  have 3: "getRootSyncSecret exampleUtils
      (map (\<lambda>c. if c = CHR '':'' then CHR ''-'' else c) (name (metadata (objects ?st 0))) @ ''-sync'')
      ?repoSecret = Inr ?syncSecret"
    by (simp add: examples)
  have log: "calls ?st = []"
    by (simp add: examples)
  from newSecretName_derivation [of "exampleRevision PUBLISHED" ?summary "''repo-secret''"
      "exampleApi []" ?repoSecret exampleUtils ?st 0 ?syncSecret] 1 2 3
  show ?thesis
    by (simp add: log)
qed

section \<open>Polling\<close>



section \<open>Initial load\<close>

lemma firstRejection_member:
  "firstRejection order rs = Some e \<Longrightarrow> Some e \<in> set rs"
  by (induction order) (auto split: if_splits option.splits dest: nth_mem)

lemma promiseAll3_rejected:
  assumes "rejection p0 \<noteq> None \<or> rejection p1 \<noteq> None \<or> rejection p2 \<noteq> None"
  shows "\<exists>e. promiseAll3 settled p0 p1 p2 = Inl e \<and> Some e \<in> {rejection p0, rejection p1, rejection p2}"
proof (cases "firstRejection settled [rejection p0, rejection p1, rejection p2]")
  case None
  with assms show ?thesis
    by (cases p0; cases p1; cases p2) (simp_all add: promiseAll3_def)
next
  case (Some e)
  with firstRejection_member [OF Some] show ?thesis
    by (auto simp: promiseAll3_def)
qed

text \<open>
  Claim C8.  The load issues its three requests before it waits for any of them, whatever their
  outcomes.  If at least one of the three is rejected, whichever it is and in whatever order the
  three settle, the load ends in the error state with one of the rejections, the page renders
  the alert with the message of that error and nothing else, and the repository summary, the
  package revision, the resources map and the store of package revision objects are as they
  were before the load.
\<close>

theorem load_failure:
  "calls (useAsync_loadPackageRevision settled api utils props st) =
     calls st @ [GetRepositorySummary (repositoryName props), GetPackageRevision (packageName props),
                 GetPackageRevisionResources (packageName props)]
   \<and> (rejection (getRepositorySummary utils api (repositoryName props)) \<noteq> None
       \<or> rejection (getPackageRevision api (packageName props)) \<noteq> None
       \<or> rejection (getPackageRevisionResources api (packageName props)) \<noteq> None \<longrightarrow>
        (\<exists>e. Some e \<in> {rejection (getRepositorySummary utils api (repositoryName props)),
                        rejection (getPackageRevision api (packageName props)),
                        rejection (getPackageRevisionResources api (packageName props))}
             \<and> error (useAsync_loadPackageRevision settled api utils props st) = Some e
             \<and> PackageRevisionPage utils props (useAsync_loadPackageRevision settled api utils props st) =
                 ErrorAlert (message e))
        \<and> \<not> loading (useAsync_loadPackageRevision settled api utils props st)
        \<and> repositorySummary (useAsync_loadPackageRevision settled api utils props st) = repositorySummary st
        \<and> packageRevision (useAsync_loadPackageRevision settled api utils props st) = packageRevision st
        \<and> resourcesMap (useAsync_loadPackageRevision settled api utils props st) = resourcesMap st
        \<and> objects (useAsync_loadPackageRevision settled api utils props st) = objects st
        \<and> nextRef (useAsync_loadPackageRevision settled api utils props st) = nextRef st)"
proof (intro conjI impI)
  show "calls (useAsync_loadPackageRevision settled api utils props st) =
     calls st @ [GetRepositorySummary (repositoryName props), GetPackageRevision (packageName props),
                 GetPackageRevisionResources (packageName props)]"
    by (simp add: useAsync_loadPackageRevision_def loadPackageRevision_def prims Let_def
          split: sum.splits prod.splits)
next
  assume rej: "rejection (getRepositorySummary utils api (repositoryName props)) \<noteq> None
       \<or> rejection (getPackageRevision api (packageName props)) \<noteq> None
       \<or> rejection (getPackageRevisionResources api (packageName props)) \<noteq> None"
  from promiseAll3_rejected [OF rej, of settled] obtain e where
    e: "promiseAll3 settled (getRepositorySummary utils api (repositoryName props))
          (getPackageRevision api (packageName props))
          (getPackageRevisionResources api (packageName props)) = Inl e"
    and mem: "Some e \<in> {rejection (getRepositorySummary utils api (repositoryName props)),
                        rejection (getPackageRevision api (packageName props)),
                        rejection (getPackageRevisionResources api (packageName props))}"
    by blast
  have st': "useAsync_loadPackageRevision settled api utils props st =
      st\<lparr>calls := calls st @ [GetRepositorySummary (repositoryName props),
                              GetPackageRevision (packageName props),
                              GetPackageRevisionResources (packageName props)],
         loading := False, error := Some e\<rparr>"
    by (simp add: useAsync_loadPackageRevision_def loadPackageRevision_def prims Let_def e)
  show "\<exists>e. Some e \<in> {rejection (getRepositorySummary utils api (repositoryName props)),
                        rejection (getPackageRevision api (packageName props)),
                        rejection (getPackageRevisionResources api (packageName props))}
             \<and> error (useAsync_loadPackageRevision settled api utils props st) = Some e
             \<and> PackageRevisionPage utils props (useAsync_loadPackageRevision settled api utils props st) =
                 ErrorAlert (message e)"
    using mem by (intro exI [of _ e]) (simp add: st' PackageRevisionPage_def)
  show "\<not> loading (useAsync_loadPackageRevision settled api utils props st)"
    and "repositorySummary (useAsync_loadPackageRevision settled api utils props st) = repositorySummary st"
    and "packageRevision (useAsync_loadPackageRevision settled api utils props st) = packageRevision st"
    and "resourcesMap (useAsync_loadPackageRevision settled api utils props st) = resourcesMap st"
    and "objects (useAsync_loadPackageRevision settled api utils props st) = objects st"
    and "nextRef (useAsync_loadPackageRevision settled api utils props st) = nextRef st"
    by (simp_all add: st')
qed

theorem load_failure_witness:
  "PackageRevisionPage exampleUtils exampleProps
     (useAsync_loadPackageRevision [2, 1, 0] (exampleApi [''getPackageRevision'']) exampleUtils exampleProps
        exampleMounted) = ErrorAlert ''getPackageRevision''
   \<and> packageRevision
       (useAsync_loadPackageRevision [2, 1, 0] (exampleApi [''getPackageRevision'']) exampleUtils exampleProps
          exampleMounted) = None
   \<and> repositorySummary
       (useAsync_loadPackageRevision [2, 1, 0] (exampleApi [''getPackageRevision'']) exampleUtils exampleProps
          exampleMounted) = None"
proof -
  let ?api = "exampleApi [''getPackageRevision'']"
  have p0: "rejection (getRepositorySummary exampleUtils ?api (repositoryName exampleProps)) = None"
    and p1: "rejection (getPackageRevision ?api (packageName exampleProps)) = Some (Error ''getPackageRevision'')"
    and p2: "rejection (getPackageRevisionResources ?api (packageName exampleProps)) = None"
    by (simp_all add: exampleApi_def exampleUtils_def answer_def)
  have before: "packageRevision exampleMounted = None" "repositorySummary exampleMounted = None"
    by (simp_all add: exampleMounted_def initialState_def runEffects_def refreshEffect_def
          syncStatusEffect_def)
  from load_failure [of "[2, 1, 0]" ?api exampleUtils exampleProps exampleMounted]
  show ?thesis
    by (auto simp: p0 p1 p2 before)
qed

section \<open>Sync status and tracked RootSync\<close>




















end
